theory Spec2Isabelle
  imports Complex_Main
begin

section \<open>Python values handled by the converter\<close>

text \<open>
  The converter of \<^verbatim>\<open>examples/shp_to_geojson.py\<close> moves Python values from the
  shapefile reader into nested dicts and lists. The values are modelled by one datatype.
  A dict keeps its insertion order, so it is an association list; every dict of this
  program has string keys. The carrier \<open>'f\<close> of floats is left open: the converter never
  computes with a float, it only passes it on. A \<^verbatim>\<open>datetime.date\<close> is its year, month
  and day.
\<close>

datatype 'f pyval =
    PyNone
  | PyBool bool
  | PyInt int
  | PyFloat 'f
  | PyStr string
  | PyDate nat nat nat
  | PyList "'f pyval list"
  | PyDict "(string \<times> 'f pyval) list"

type_synonym 'f dict = "(string \<times> 'f pyval) list"

datatype error = IndexError

text \<open>\<^verbatim>\<open>d[k] = v\<close>: an existing key keeps its place and gets the new value, a new key
  goes to the end.\<close>

fun dict_setitem :: "'f dict \<Rightarrow> string \<Rightarrow> 'f pyval \<Rightarrow> 'f dict" where
  "dict_setitem [] k v = [(k, v)]"
| "dict_setitem ((k', v') # kvs) k v =
     (if k' = k then (k, v) # kvs else (k', v') # dict_setitem kvs k v)"

text \<open>\<^verbatim>\<open>d[k]\<close> read as \<^verbatim>\<open>d.get(k)\<close>: the value bound to a key, if any.\<close>

fun dict_get :: "'f dict \<Rightarrow> string \<Rightarrow> 'f pyval option" where
  "dict_get [] k = None"
| "dict_get ((k', v') # kvs) k = (if k' = k then Some v' else dict_get kvs k)"

text \<open>\<^verbatim>\<open>xs[start:stop]\<close> on a list, with Python's rules: a negative index counts from
  the end, every index is clamped to the list, an empty range gives the empty list.\<close>

definition py_slice :: "'a list \<Rightarrow> int \<Rightarrow> int \<Rightarrow> 'a list" where
  "py_slice xs start stop =
     (let n = int (length xs);
          s = (if start < 0 then max (start + n) 0 else min start n);
          e = (if stop < 0 then max (stop + n) 0 else min stop n)
      in take (nat (e - s)) (drop (nat s) xs))"

subsection \<open>\<^verbatim>\<open>date.isoformat()\<close>\<close>

definition digit_char :: "nat \<Rightarrow> char" where
  "digit_char d = ''0123456789'' ! d"

fun digits :: "nat \<Rightarrow> string" where
  "digits n = (if n < 10 then [digit_char n] else digits (n div 10) @ [digit_char (n mod 10)])"

definition zfill :: "nat \<Rightarrow> string \<Rightarrow> string" where
  "zfill w s = replicate (w - length s) (CHR ''0'') @ s"

text \<open>\<^verbatim>\<open>'%04d-%02d-%02d' % (year, month, day)\<close>\<close>

definition isoformat :: "nat \<Rightarrow> nat \<Rightarrow> nat \<Rightarrow> string" where
  "isoformat y m d = zfill 4 (digits y) @ ''-'' @ zfill 2 (digits m) @ ''-'' @ zfill 2 (digits d)"

text \<open>\<^verbatim>\<open>hasattr(value, 'isoformat')\<close>: of the values a record holds, only a date has
  the method.\<close>

fun hasattr_isoformat :: "'f pyval \<Rightarrow> bool" where
  "hasattr_isoformat (PyDate y m d) = True"
| "hasattr_isoformat _ = False"

fun value_isoformat :: "'f pyval \<Rightarrow> 'f pyval" where
  "value_isoformat (PyDate y m d) = PyStr (isoformat y m d)"
| "value_isoformat v = v"

section \<open>The reader's data\<close>

text \<open>A shape of the reader: \<^verbatim>\<open>shape.shapeType\<close>, \<^verbatim>\<open>shape.points\<close> and
  \<^verbatim>\<open>shape.parts\<close> (signed offsets into the points).\<close>

record 'f shape =
  shapeType :: int
  points :: "'f pyval list"
  parts :: "int list"

text \<open>A \<^verbatim>\<open>ShapeRecord\<close>: the shape and its attribute row, a list of values.\<close>

record 'f shape_rec =
  sr_shape :: "'f shape"
  sr_record :: "'f pyval list"

section \<open>Extracting the attributes\<close>

text \<open>
  Lines 74 to 80: \<^verbatim>\<open>for i, field_name in enumerate(field_names)\<close> reads
  \<^verbatim>\<open>record[i]\<close>, which raises \<^verbatim>\<open>IndexError\<close> past the end of the row, converts a
  date to its text and stores the value under the field's name.
\<close>

fun extract_loop ::
  "string list \<Rightarrow> nat \<Rightarrow> 'f pyval list \<Rightarrow> 'f dict \<Rightarrow> error + 'f dict" where
  "extract_loop [] i record properties = Inr properties"
| "extract_loop (field_name # rest) i record properties =
     (if i < length record then
        let value = record ! i;
            value = (if hasattr_isoformat value then value_isoformat value else value)
        in extract_loop rest (Suc i) record (dict_setitem properties field_name value)
      else Inl IndexError)"

definition extract_attributes :: "string list \<Rightarrow> 'f pyval list \<Rightarrow> error + 'f dict" where
  "extract_attributes field_names record = extract_loop field_names 0 record []"

section \<open>Converting the geometry\<close>

text \<open>
  Lines 99 to 103 and 118 to 122, the same loop twice:
  \<^verbatim>\<open>for i in range(len(shape.parts))\<close> appends
  \<^verbatim>\<open>shape.points[start:end]\<close> with \<^verbatim>\<open>start = shape.parts[i]\<close> and
  \<^verbatim>\<open>end = shape.parts[i + 1] if i < len(shape.parts) - 1 else len(shape.points)\<close>.
  Both reads of \<^verbatim>\<open>shape.parts\<close> are in range inside the loop.
\<close>

fun split_loop ::
  "'f pyval list \<Rightarrow> int list \<Rightarrow> nat list \<Rightarrow> 'f pyval list \<Rightarrow> 'f pyval list" where
  "split_loop pts prts [] lines = lines"
| "split_loop pts prts (i # rest) lines =
     (let start = prts ! i;
          end = (if int i < int (length prts) - 1 then prts ! (i + 1) else int (length pts))
      in split_loop pts prts rest (lines @ [PyList (py_slice pts start end)]))"

definition split_parts :: "'f shape \<Rightarrow> 'f pyval list" where
  "split_parts s = split_loop (points s) (parts s) [0 ..< length (parts s)] []"

text \<open>
  Lines 83 to 126. The variable \<^verbatim>\<open>geometry\<close> holds \<^verbatim>\<open>None\<close> or a dict;
  \<^verbatim>\<open>shape.points[0]\<close> raises \<^verbatim>\<open>IndexError\<close> on an empty list.
\<close>

definition build_geometry :: "'f shape \<Rightarrow> error + 'f dict option" where
  "build_geometry s =
     (if shapeType s = 1 then
        (case points s of
           [] \<Rightarrow> Inl IndexError
         | p # _ \<Rightarrow> Inr (Some [(''type'', PyStr ''Point''), (''coordinates'', p)]))
      else if shapeType s = 3 then
        (if length (parts s) = 1 then
           Inr (Some [(''type'', PyStr ''LineString''), (''coordinates'', PyList (points s))])
         else
           Inr (Some [(''type'', PyStr ''MultiLineString''),
                      (''coordinates'', PyList (split_parts s))]))
      else if shapeType s = 5 then
        (if length (parts s) = 1 then
           Inr (Some [(''type'', PyStr ''Polygon''),
                      (''coordinates'', PyList [PyList (points s)])])
         else
           Inr (Some [(''type'', PyStr ''Polygon''), (''coordinates'', PyList (split_parts s))]))
      else Inr None)"

section \<open>Creating the features\<close>

text \<open>\<^verbatim>\<open>if geometry:\<close> is false for \<^verbatim>\<open>None\<close> and for an empty dict.\<close>

definition truthy :: "'f dict option \<Rightarrow> bool" where
  "truthy geometry = (case geometry of None \<Rightarrow> False | Some d \<Rightarrow> d \<noteq> [])"

definition geometry_value :: "'f dict option \<Rightarrow> 'f pyval" where
  "geometry_value geometry = (case geometry of None \<Rightarrow> PyNone | Some d \<Rightarrow> PyDict d)"

text \<open>
  Lines 69 to 135, the loop over \<^verbatim>\<open>sf.shapeRecords()\<close>. The list \<open>features\<close> is the
  one that \<^verbatim>\<open>geojson["features"]\<close> refers to. The attributes are extracted before the
  shape type is looked at, and an exception of either step ends the run.
\<close>

fun convert_loop ::
  "string list \<Rightarrow> 'f shape_rec list \<Rightarrow> 'f pyval list \<Rightarrow> error + 'f pyval list" where
  "convert_loop field_names [] features = Inr features"
| "convert_loop field_names (shape_rec # rest) features =
     (case extract_attributes field_names (sr_record shape_rec) of
        Inl e \<Rightarrow> Inl e
      | Inr properties \<Rightarrow>
          (case build_geometry (sr_shape shape_rec) of
             Inl e \<Rightarrow> Inl e
           | Inr geometry \<Rightarrow>
               (if truthy geometry then
                  convert_loop field_names rest
                    (features @ [PyDict [(''type'', PyStr ''Feature''),
                                         (''geometry'', geometry_value geometry),
                                         (''properties'', PyDict properties)]])
                else convert_loop field_names rest features)))"

section \<open>The whole conversion\<close>

text \<open>
  What \<^verbatim>\<open>shapefile.Reader\<close> gives: \<^verbatim>\<open>sf.fields\<close>, a list of descriptors
  (name, type, size, decimals) whose first entry is the deletion flag, and
  \<^verbatim>\<open>sf.shapeRecords()\<close>.
\<close>

record 'f reader =
  sf_fields :: "(string \<times> string \<times> nat \<times> nat) list"
  shapeRecords :: "'f shape_rec list"

text \<open>Lines 57 to 66, with the list of features in its place.\<close>

definition geojson :: "'f pyval list \<Rightarrow> 'f pyval" where
  "geojson features =
     PyDict [(''type'', PyStr ''FeatureCollection''),
             (''crs'', PyDict [(''type'', PyStr ''name''),
                               (''properties'', PyDict [(''name'', PyStr ''EPSG:4326'')])]),
             (''features'', PyList features)]"

text \<open>
  The one write of a run is the call \<^verbatim>\<open>json.dump(geojson, f, indent=2)\<close> of line 139:
  the object and the indentation it is given. The serialiser itself is the standard
  library's.
\<close>

record 'f json_dump =
  obj :: "'f pyval"
  indent :: nat

text \<open>
  \<^verbatim>\<open>shp_to_geojson\<close>, without its console output and its paths: a missing shapefile
  returns \<^verbatim>\<open>None\<close> and writes nothing (lines 32 to 34); otherwise the field names are
  \<^verbatim>\<open>[f[0] for f in sf.fields[1:]]\<close>, the records are converted and the document is
  written.
\<close>

definition shp_to_geojson :: "bool \<Rightarrow> 'f reader \<Rightarrow> error + 'f json_dump option" where
  "shp_to_geojson shp_exists sf =
     (if \<not> shp_exists then Inr None
      else
        let field_names = map fst (drop 1 (sf_fields sf)) in
        (case convert_loop field_names (shapeRecords sf) [] of
           Inl e \<Rightarrow> Inl e
         | Inr features \<Rightarrow> Inr (Some \<lparr>obj = geojson features, indent = 2\<rparr>)))"

section \<open>The loops, without their accumulators\<close>

lemma split_loop_map:
  "split_loop pts prts rng lines =
     lines @ map (\<lambda>i. PyList (py_slice pts (prts ! i)
                     (if i + 1 < length prts then prts ! (i + 1) else int (length pts)))) rng"
proof (induction rng arbitrary: lines)
  case Nil
  show ?case by simp
next
  case (Cons i rng)
  have c: "(int i < int (length prts) - 1) = (i + 1 < length prts)" by linarith
  show ?case by (simp add: Cons.IH c Let_def)
qed

lemma split_parts_map:
  "split_parts s =
     map (\<lambda>i. PyList (py_slice (points s) (parts s ! i)
                 (if i + 1 < length (parts s) then parts s ! (i + 1) else int (length (points s)))))
       [0 ..< length (parts s)]"
  by (simp add: split_parts_def split_loop_map)

lemma py_slice_in_range:
  "0 \<le> a \<Longrightarrow> a \<le> b \<Longrightarrow> b \<le> int (length xs) \<Longrightarrow>
   py_slice xs a b = take (nat b - nat a) (drop (nat a) xs)"
  by (simp add: py_slice_def Let_def min_def nat_diff_distrib')

lemma extract_error: "extract_attributes field_names record = Inl e \<Longrightarrow> e = IndexError"
  by (cases e) simp

section \<open>The geometry of one record\<close>

text \<open>
  C5: for a Point record (shape type 1), the geometry is tagged Point and its
  coordinates are the first entry of the record's points, as it is.
\<close>

theorem point_geometry:
  "shapeType s = 1 \<Longrightarrow> points s = p # ps \<Longrightarrow>
   build_geometry s = Inr (Some [(''type'', PyStr ''Point''), (''coordinates'', p)])"
  by (simp add: build_geometry_def)

theorem point_geometry_witness:
  "shapeType \<lparr>shapeType = 1, points = [PyList [PyFloat (2::real), PyFloat 5]], parts = [0]\<rparr> = 1
   \<and> build_geometry \<lparr>shapeType = 1, points = [PyList [PyFloat (2::real), PyFloat 5]], parts = [0]\<rparr>
     = Inr (Some [(''type'', PyStr ''Point''), (''coordinates'', PyList [PyFloat 2, PyFloat 5])])"
  using point_geometry [of "\<lparr>shapeType = 1, points = [PyList [PyFloat (2::real), PyFloat 5]], parts = [0]\<rparr>"
      "PyList [PyFloat 2, PyFloat 5]" "[]"]
  by simp

text \<open>
  C10: for a Point record, reading the first point is defined as soon as the record has
  a point, and the geometry is built from it; with no point at all the read raises
  \<^verbatim>\<open>IndexError\<close>, no geometry is produced and the run ends with that exception.
\<close>

theorem point_first_defined:
  assumes "shapeType (sr_shape r) = 1"
  shows "(points (sr_shape r) \<noteq> [] \<longrightarrow>
            build_geometry (sr_shape r) =
              Inr (Some [(''type'', PyStr ''Point''), (''coordinates'', points (sr_shape r) ! 0)]))
       \<and> (points (sr_shape r) = [] \<longrightarrow>
            build_geometry (sr_shape r) = Inl IndexError
          \<and> convert_loop field_names (r # rest) features = Inl IndexError)"
proof (cases "points (sr_shape r)")
  case Nil
  with assms have "build_geometry (sr_shape r) = Inl IndexError"
    by (simp add: build_geometry_def)
  then show ?thesis using Nil
    by (auto split: sum.splits dest: extract_error)
next
  case (Cons p ps)
  with assms show ?thesis by (simp add: build_geometry_def)
qed

theorem point_first_defined_witness:
  "shapeType (sr_shape \<lparr>sr_shape = \<lparr>shapeType = 1, points = [PyList [PyInt 3, PyInt 4]], parts = []\<rparr>,
                        sr_record = []\<rparr>) = 1
   \<and> build_geometry \<lparr>shapeType = 1, points = [PyList [PyInt 3, PyInt 4 :: real pyval]], parts = []\<rparr>
     = Inr (Some [(''type'', PyStr ''Point''), (''coordinates'', PyList [PyInt 3, PyInt 4])])
   \<and> build_geometry (\<lparr>shapeType = 1, points = [], parts = []\<rparr> :: real shape) = Inl IndexError
   \<and> convert_loop [] [\<lparr>sr_shape = \<lparr>shapeType = 1, points = [], parts = []\<rparr>,
                        sr_record = []\<rparr> :: real shape_rec] [] = Inl IndexError"
  using point_first_defined
      [of "\<lparr>sr_shape = \<lparr>shapeType = 1, points = [PyList [PyInt 3, PyInt 4]], parts = []\<rparr>,
            sr_record = []\<rparr> :: real shape_rec"]
    point_first_defined
      [of "\<lparr>sr_shape = \<lparr>shapeType = 1, points = [], parts = []\<rparr>, sr_record = []\<rparr> :: real shape_rec"
          "[]" "[]" "[]"]
  by simp

text \<open>
  C1: for a Polyline record (shape type 3) with exactly one part, the geometry is a
  LineString of the record's points as they are; otherwise it is a MultiLineString with
  one line for each part, the slice of the points from \<open>parts[i]\<close> to \<open>parts[i+1]\<close>, or
  to the number of points for the last part.
\<close>

theorem polyline_geometry:
  assumes "shapeType s = 3"
  shows "build_geometry s =
    (if length (parts s) = 1 then
       Inr (Some [(''type'', PyStr ''LineString''), (''coordinates'', PyList (points s))])
     else
       Inr (Some [(''type'', PyStr ''MultiLineString''),
                  (''coordinates'',
                   PyList (map (\<lambda>i. PyList (py_slice (points s) (parts s ! i)
                                  (if i + 1 < length (parts s) then parts s ! (i + 1)
                                   else int (length (points s)))))
                             [0 ..< length (parts s)]))]))"
  using assms by (simp add: build_geometry_def split_parts_map)

theorem polyline_geometry_witness:
  "shapeType \<lparr>shapeType = 3, points = map PyInt [10, 11, 12, 13, 14], parts = [0, 3]\<rparr> = 3
   \<and> build_geometry
       (\<lparr>shapeType = 3, points = map PyInt [10, 11, 12, 13, 14], parts = [0, 3]\<rparr> :: real shape)
     = Inr (Some [(''type'', PyStr ''MultiLineString''),
                  (''coordinates'', PyList [PyList [PyInt 10, PyInt 11, PyInt 12],
                                            PyList [PyInt 13, PyInt 14]])])
   \<and> build_geometry
       (\<lparr>shapeType = 3, points = map PyInt [10, 11, 12], parts = [0]\<rparr> :: real shape)
     = Inr (Some [(''type'', PyStr ''LineString''),
                  (''coordinates'', PyList [PyInt 10, PyInt 11, PyInt 12])])"
  using polyline_geometry
      [of "\<lparr>shapeType = 3, points = map PyInt [10, 11, 12, 13, 14], parts = [0, 3]\<rparr> :: real shape"]
    polyline_geometry
      [of "\<lparr>shapeType = 3, points = map PyInt [10, 11, 12], parts = [0]\<rparr> :: real shape"]
  by (simp add: py_slice_def upt_rec)

text \<open>
  C2: for a Polygon record (shape type 5), the geometry is one Polygon: with exactly one
  part its only ring is the whole list of points, otherwise its rings are the slices of
  all parts, cut as for a polyline. The tag is never another one, and the record gives
  exactly one feature, appended to the features collected so far.
\<close>

theorem polygon_geometry:
  assumes "shapeType (sr_shape r) = 5"
  shows "let s = sr_shape r;
             rings = (if length (parts s) = 1 then [PyList (points s)]
                      else map (\<lambda>i. PyList (py_slice (points s) (parts s ! i)
                                   (if i + 1 < length (parts s) then parts s ! (i + 1)
                                    else int (length (points s)))))
                             [0 ..< length (parts s)]);
             geometry = [(''type'', PyStr ''Polygon''), (''coordinates'', PyList rings)]
         in build_geometry s = Inr (Some geometry)
          \<and> (\<forall>properties. extract_attributes field_names (sr_record r) = Inr properties \<longrightarrow>
               convert_loop field_names (r # rest) features =
               convert_loop field_names rest
                 (features @ [PyDict [(''type'', PyStr ''Feature''),
                                      (''geometry'', PyDict geometry),
                                      (''properties'', PyDict properties)]]))"
  using assms
  by (simp add: build_geometry_def split_parts_map truthy_def geometry_value_def Let_def)

theorem polygon_geometry_witness:
  "shapeType (sr_shape \<lparr>sr_shape = \<lparr>shapeType = 5, points = map PyInt [0, 1, 2, 3, 4, 5, 6, 7],
                                   parts = [0, 4]\<rparr>,
                        sr_record = [PyStr ''lot'']\<rparr>) = 5
   \<and> convert_loop [''name'']
       [\<lparr>sr_shape = \<lparr>shapeType = 5, points = map PyInt [0, 1, 2, 3, 4, 5, 6, 7], parts = [0, 4]\<rparr>,
         sr_record = [PyStr ''lot'']\<rparr> :: real shape_rec] []
     = Inr [PyDict [(''type'', PyStr ''Feature''),
                    (''geometry'',
                     PyDict [(''type'', PyStr ''Polygon''),
                             (''coordinates'',
                              PyList [PyList [PyInt 0, PyInt 1, PyInt 2, PyInt 3],
                                      PyList [PyInt 4, PyInt 5, PyInt 6, PyInt 7]])]),
                    (''properties'', PyDict [(''name'', PyStr ''lot'')])]]"
  using polygon_geometry
      [of "\<lparr>sr_shape = \<lparr>shapeType = 5, points = map PyInt [0, 1, 2, 3, 4, 5, 6, 7], parts = [0, 4]\<rparr>,
            sr_record = [PyStr ''lot'']\<rparr> :: real shape_rec" "[''name'']" "[]" "[]"]
  by (simp add: py_slice_def upt_rec extract_attributes_def Let_def truthy_def geometry_value_def)

section \<open>The attributes of one record\<close>

lemma extract_loop_short:
  "i \<le> length record \<Longrightarrow> length record < i + length field_names \<Longrightarrow>
   extract_loop field_names i record properties = Inl IndexError"
  by (induction field_names arbitrary: i properties) (auto simp: Let_def)

lemma extract_loop_take:
  "extract_loop field_names i record properties =
   extract_loop field_names i (take (i + length field_names) record) properties"
  by (induction field_names arbitrary: i properties) (auto simp: Let_def)

lemma extract_loop_defined:
  "i + length field_names \<le> length record \<Longrightarrow>
   \<exists>props. extract_loop field_names i record properties = Inr props"
  by (induction field_names arbitrary: i properties) (auto simp: Let_def)

lemma extract_defined:
  "length field_names \<le> length record \<Longrightarrow> \<exists>props. extract_attributes field_names record = Inr props"
  using extract_loop_defined [of 0 field_names "record" "[]"] by (simp add: extract_attributes_def)

lemma convert_value:
  "(if hasattr_isoformat v then value_isoformat v else v) =
   (case v of PyDate y m d \<Rightarrow> PyStr (isoformat y m d) | _ \<Rightarrow> v)"
  by (cases v) simp_all

lemma dict_setitem_fresh: "k \<notin> set (map fst d) \<Longrightarrow> dict_setitem d k v = d @ [(k, v)]"
  by (induction d) auto

lemma dict_setitem_keys_known: "k \<in> set (map fst d) \<Longrightarrow> map fst (dict_setitem d k v) = map fst d"
  by (induction d) force+

lemma remdups_snoc: "remdups (xs @ [f]) = remdups [x \<leftarrow> xs. x \<noteq> f] @ [f]"
  by (induction xs) auto

lemma first_seen_Cons:
  "rev (remdups (rev (f # xs))) = f # rev (remdups (rev [k \<leftarrow> xs. k \<noteq> f]))"
  by (simp add: remdups_snoc rev_filter)

lemma dict_get_setitem:
  "dict_get (dict_setitem d k v) k' = (if k' = k then Some v else dict_get d k')"
  by (induction d) auto

lemma extract_loop_distinct:
  "i + length field_names \<le> length record \<Longrightarrow> distinct field_names \<Longrightarrow>
   set field_names \<inter> set (map fst properties) = {} \<Longrightarrow>
   extract_loop field_names i record properties =
     Inr (properties @ zip field_names
            (map (\<lambda>v. case v of PyDate y m d \<Rightarrow> PyStr (isoformat y m d) | _ \<Rightarrow> v)
               (drop i record)))"
proof (induction field_names arbitrary: i properties)
  case Nil
  show ?case by simp
next
  case (Cons f rest)
  let ?c = "\<lambda>v. case v of PyDate y m d \<Rightarrow> PyStr (isoformat y m d) | _ \<Rightarrow> v"
  from Cons.prems have i: "i < length record" by simp
  from Cons.prems have fresh: "f \<notin> set (map fst properties)" by auto
  have d: "drop i record = record ! i # drop (Suc i) record"
    using i by (simp add: Cons_nth_drop_Suc)
  have "extract_loop (f # rest) i record properties =
        extract_loop rest (Suc i) record (properties @ [(f, ?c (record ! i))])"
    using i fresh by (simp add: Let_def convert_value dict_setitem_fresh del: hasattr_isoformat.simps value_isoformat.simps)
  also have "\<dots> = Inr ((properties @ [(f, ?c (record ! i))]) @ zip rest (map ?c (drop (Suc i) record)))"
    using Cons.prems by (intro Cons.IH) auto
  finally show ?case by (simp add: d)
qed

lemma extract_loop_other:
  "extract_loop field_names i record properties = Inr props \<Longrightarrow> k \<notin> set field_names \<Longrightarrow>
   dict_get props k = dict_get properties k"
proof (induction field_names arbitrary: i properties)
  case Nil
  then show ?case by simp
next
  case (Cons f rest)
  then show ?case
    by (auto simp: Let_def dict_get_setitem split: if_splits)
qed

lemma extract_loop_last:
  "extract_loop field_names i record properties = Inr props \<Longrightarrow> j < length field_names \<Longrightarrow>
   (\<forall>j'. j < j' \<and> j' < length field_names \<longrightarrow> field_names ! j' \<noteq> field_names ! j) \<Longrightarrow>
   dict_get props (field_names ! j) =
     Some (case record ! (i + j) of PyDate y m d \<Rightarrow> PyStr (isoformat y m d)
           | _ \<Rightarrow> record ! (i + j))"
proof (induction field_names arbitrary: i j properties)
  case Nil
  then show ?case by simp
next
  case (Cons f rest)
  let ?c = "\<lambda>v. case v of PyDate y m d \<Rightarrow> PyStr (isoformat y m d) | _ \<Rightarrow> v"
  from Cons.prems(1) have i: "i < length record" by (auto split: if_splits)
  with Cons.prems(1) have run:
    "extract_loop rest (Suc i) record (dict_setitem properties f (?c (record ! i))) = Inr props"
    by (simp add: Let_def convert_value del: hasattr_isoformat.simps value_isoformat.simps)
  show ?case
  proof (cases j)
    case 0
    have "f \<notin> set rest"
    proof
      assume "f \<in> set rest"
      then obtain n where "n < length rest" "rest ! n = f" by (auto simp: in_set_conv_nth)
      with Cons.prems(3) 0 show False by (auto dest: spec [of _ "Suc n"])
    qed
    from extract_loop_other [OF run this] show ?thesis
      unfolding 0 by (simp add: dict_get_setitem cong: pyval.case_cong)
  next
    case (Suc n)
    have "dict_get props (rest ! n) = Some (?c (record ! (Suc i + n)))"
    proof (rule Cons.IH [OF run])
      show "n < length rest" using Cons.prems(2) Suc by simp
      show "\<forall>j'. n < j' \<and> j' < length rest \<longrightarrow> rest ! j' \<noteq> rest ! n"
      proof (intro allI impI)
        fix j' assume "n < j' \<and> j' < length rest"
        with Cons.prems(3) Suc show "rest ! j' \<noteq> rest ! n" by (auto dest: spec [of _ "Suc j'"])
      qed
    qed
    then show ?thesis unfolding Suc by (simp cong: pyval.case_cong)
  qed
qed

lemma extract_loop_keys:
  "extract_loop field_names i record properties = Inr props \<Longrightarrow>
   map fst props =
     map fst properties @ rev (remdups (rev [k \<leftarrow> field_names. k \<notin> set (map fst properties)]))"
proof (induction field_names arbitrary: i properties)
  case Nil
  then show ?case by simp
next
  case (Cons f rest)
  let ?c = "\<lambda>v. case v of PyDate y m d \<Rightarrow> PyStr (isoformat y m d) | _ \<Rightarrow> v"
  let ?d = "dict_setitem properties f (?c (record ! i))"
  from Cons.prems(1) have i: "i < length record" by (auto split: if_splits)
  with Cons.prems(1) have run: "extract_loop rest (Suc i) record ?d = Inr props"
    by (simp add: Let_def convert_value del: hasattr_isoformat.simps value_isoformat.simps)
  note ih = Cons.IH [OF run]
  show ?case
  proof (cases "f \<in> set (map fst properties)")
    case True
    then have "map fst ?d = map fst properties" by (rule dict_setitem_keys_known)
    with ih True show ?thesis by simp
  next
    case False
    then have k: "map fst ?d = map fst properties @ [f]" by (simp add: dict_setitem_fresh)
    have "[k \<leftarrow> rest. k \<notin> set (map fst ?d)] = [k \<leftarrow> [k \<leftarrow> rest. k \<notin> set (map fst properties)]. k \<noteq> f]"
      unfolding k by (induction rest) auto
    then have "rev (remdups (rev [k \<leftarrow> rest. k \<notin> set (map fst ?d)])) =
               rev (remdups (rev [k \<leftarrow> [k \<leftarrow> rest. k \<notin> set (map fst properties)]. k \<noteq> f]))"
      by simp
    also have "f # \<dots> = rev (remdups (rev (f # [k \<leftarrow> rest. k \<notin> set (map fst properties)])))"
      by (rule first_seen_Cons [symmetric])
    finally have "rev (remdups (rev [k \<leftarrow> f # rest. k \<notin> set (map fst properties)])) =
        f # rev (remdups (rev [k \<leftarrow> rest. k \<notin> set (map fst ?d)]))"
      using False by simp
    with ih k show ?thesis by simp
  qed
qed

text \<open>
  C3, as the code has it: the extraction fails, with \<^verbatim>\<open>IndexError\<close>, exactly when the
  row has fewer values than there are field names. A row with more values does not
  fail: the values past the last field name are not read, and the properties are those
  of the row cut to the number of field names.
\<close>

theorem short_row_fails:
  "(extract_attributes field_names record = Inl IndexError) = (length record < length field_names)
   \<and> ((\<exists>properties. extract_attributes field_names record = Inr properties)
        = (length field_names \<le> length record))
   \<and> extract_attributes field_names record =
       extract_attributes field_names (take (length field_names) record)"
proof (intro conjI)
  show a: "(extract_attributes field_names record = Inl IndexError) = (length record < length field_names)"
  proof
    assume e: "extract_attributes field_names record = Inl IndexError"
    show "length record < length field_names"
    proof (rule ccontr)
      assume "\<not> length record < length field_names"
      then have "length field_names \<le> length record" by simp
      from extract_defined [OF this] e show False by auto
    qed
  next
    assume "length record < length field_names"
    then show "extract_attributes field_names record = Inl IndexError"
      using extract_loop_short [of 0 "record" field_names "[]"] by (simp add: extract_attributes_def)
  qed
  show "(\<exists>properties. extract_attributes field_names record = Inr properties)
        = (length field_names \<le> length record)"
  proof
    assume "\<exists>properties. extract_attributes field_names record = Inr properties"
    with a show "length field_names \<le> length record" by auto
  next
    assume "length field_names \<le> length record"
    then show "\<exists>properties. extract_attributes field_names record = Inr properties"
      by (rule extract_defined)
  qed
  show "extract_attributes field_names record =
       extract_attributes field_names (take (length field_names) record)"
    using extract_loop_take [of field_names 0 "record" "[]"] by (simp add: extract_attributes_def)
qed

theorem short_row_fails_witness:
  "extract_attributes [''a'', ''b''] [PyInt 1 :: real pyval] = Inl IndexError
   \<and> extract_attributes [''a''] [PyInt 1, PyInt 2 :: real pyval]
     = extract_attributes [''a''] [PyInt 1]"
  using short_row_fails [of "[''a'', ''b'']" "[PyInt 1 :: real pyval]"]
    short_row_fails [of "[''a'']" "[PyInt 1, PyInt 2 :: real pyval]"]
  by simp

text \<open>
  The statement of C3 that every difference of arity fails does not hold: one field
  name and a row of two values give a properties dict.
\<close>

theorem long_row_truncated:
  "length [PyInt 1, PyInt 2 :: real pyval] \<noteq> length [''a'']
   \<and> extract_attributes [''a''] [PyInt 1, PyInt 2 :: real pyval] = Inr [(''a'', PyInt 1)]"
  by (simp add: extract_attributes_def)

text \<open>
  C6, as the code has it: for a row with at least as many values as there are field
  names, the extraction gives a properties dict. When the field names are pairwise
  distinct, it binds each field name, in field order, to the row value at the same
  position, a date replaced by its ISO text and every other value as it is. In general
  the keys are the field names in the order of their first occurrence, and a name is
  bound to the value at the position of its last occurrence.
\<close>

theorem properties_projected:
  assumes "length field_names \<le> length record"
  shows "\<exists>properties.
      extract_attributes field_names record = Inr properties
    \<and> (distinct field_names \<longrightarrow>
         properties = zip field_names
           (map (\<lambda>v. case v of PyDate y m d \<Rightarrow> PyStr (isoformat y m d) | _ \<Rightarrow> v) record))
    \<and> map fst properties = rev (remdups (rev field_names))
    \<and> (\<forall>i < length field_names.
          (\<forall>j. i < j \<and> j < length field_names \<longrightarrow> field_names ! j \<noteq> field_names ! i) \<longrightarrow>
          dict_get properties (field_names ! i) =
            Some (case record ! i of PyDate y m d \<Rightarrow> PyStr (isoformat y m d) | _ \<Rightarrow> record ! i))"
proof -
  from extract_defined [OF assms] obtain properties
    where run: "extract_loop field_names 0 record [] = Inr properties"
    by (auto simp: extract_attributes_def)
  have a: "distinct field_names \<longrightarrow>
         properties = zip field_names
           (map (\<lambda>v. case v of PyDate y m d \<Rightarrow> PyStr (isoformat y m d) | _ \<Rightarrow> v) record)"
  proof
    assume "distinct field_names"
    with extract_loop_distinct [of 0 field_names "record" "[]"] assms run
    show "properties = zip field_names
           (map (\<lambda>v. case v of PyDate y m d \<Rightarrow> PyStr (isoformat y m d) | _ \<Rightarrow> v) record)"
      by simp
  qed
  have b: "map fst properties = rev (remdups (rev field_names))"
    using extract_loop_keys [OF run] by simp
  have c: "\<forall>i < length field_names.
          (\<forall>j. i < j \<and> j < length field_names \<longrightarrow> field_names ! j \<noteq> field_names ! i) \<longrightarrow>
          dict_get properties (field_names ! i) =
            Some (case record ! i of PyDate y m d \<Rightarrow> PyStr (isoformat y m d) | _ \<Rightarrow> record ! i)"
  proof (intro allI impI)
    fix i
    assume i: "i < length field_names"
      and l: "\<forall>j. i < j \<and> j < length field_names \<longrightarrow> field_names ! j \<noteq> field_names ! i"
    from extract_loop_last [OF run i l]
    show "dict_get properties (field_names ! i) =
            Some (case record ! i of PyDate y m d \<Rightarrow> PyStr (isoformat y m d) | _ \<Rightarrow> record ! i)"
      by (simp cong: pyval.case_cong)
  qed
  from run a b c show ?thesis unfolding extract_attributes_def by blast
qed

theorem properties_projected_witness:
  "length [''id'', ''sold''] \<le> length [PyInt 7, PyDate 2024 3 7 :: real pyval]
   \<and> extract_attributes [''id'', ''sold''] [PyInt 7, PyDate 2024 3 7 :: real pyval]
     = Inr [(''id'', PyInt 7), (''sold'', PyStr ''2024-03-07'')]"
proof -
  have h: "length [''id'', ''sold''] \<le> length [PyInt 7, PyDate 2024 3 7 :: real pyval]"
    by simp
  have d: "distinct [''id'', ''sold'']" by simp
  from properties_projected [OF h] d
  have "extract_attributes [''id'', ''sold''] [PyInt 7, PyDate 2024 3 7 :: real pyval]
     = Inr (zip [''id'', ''sold'']
           (map (\<lambda>v. case v of PyDate y m d \<Rightarrow> PyStr (isoformat y m d) | _ \<Rightarrow> v)
              [PyInt 7, PyDate 2024 3 7 :: real pyval]))"
    by blast
  then show ?thesis by (simp add: isoformat_def zfill_def digit_char_def)
qed

text \<open>
  The statement of C6 that every field name is bound to the value at its own position
  does not hold for a repeated name: the name at position 0 is bound to the value at
  position 1.
\<close>

theorem repeated_field_name:
  "extract_attributes [''a'', ''a''] [PyInt 1, PyInt 2 :: real pyval] = Inr [(''a'', PyInt 2)]
   \<and> dict_get [(''a'', PyInt 2 :: real pyval)] ([''a'', ''a''] ! 0) \<noteq> Some ([PyInt 1, PyInt 2] ! 0)"
  by (simp add: extract_attributes_def)

section \<open>The parts of a polyline together\<close>

lemma concat_slices:
  assumes inc: "sorted_wrt (<) prts"
    and first: "prts \<noteq> []" "prts ! 0 = 0"
    and bound: "\<forall>p \<in> set prts. 0 \<le> p \<and> p < int (length pts)"
  shows "k \<le> length prts \<Longrightarrow>
    concat (map (\<lambda>i. py_slice pts (prts ! i)
                   (if i + 1 < length prts then prts ! (i + 1) else int (length pts))) [0 ..< k])
    = take (nat (if k < length prts then prts ! k else int (length pts))) pts"
proof (induction k)
  case 0
  with first show ?case by simp
next
  case (Suc k)
  let ?e = "if k + 1 < length prts then prts ! (k + 1) else int (length pts)"
  from Suc.prems have k: "k < length prts" by simp
  with bound have a: "0 \<le> prts ! k" "prts ! k < int (length pts)" by auto
  have ae: "prts ! k \<le> ?e"
  proof (cases "k + 1 < length prts")
    case True
    with inc have "prts ! k < prts ! (k + 1)" by (simp add: sorted_wrt_nth_less)
    with True show ?thesis by simp
  next
    case False
    with a show ?thesis by simp
  qed
  have e: "?e \<le> int (length pts)"
    using bound by (auto simp: less_imp_le)
  have "concat (map (\<lambda>i. py_slice pts (prts ! i)
                   (if i + 1 < length prts then prts ! (i + 1) else int (length pts))) [0 ..< Suc k])
      = take (nat (prts ! k)) pts @ py_slice pts (prts ! k) ?e"
    using Suc.IH k by simp
  also have "\<dots> = take (nat (prts ! k)) pts @ take (nat ?e - nat (prts ! k)) (drop (nat (prts ! k)) pts)"
    using py_slice_in_range [OF a(1) ae e] by simp
  also have "\<dots> = take (nat (prts ! k) + (nat ?e - nat (prts ! k))) pts"
    by (simp only: take_add)
  also have "nat (prts ! k) + (nat ?e - nat (prts ! k)) = nat ?e"
    using a(1) ae by linarith
  finally show ?case by (simp del: upt_Suc)
qed

text \<open>
  C9: for a Polyline record of several parts whose offsets are strictly increasing,
  start at 0 and lie below the number of points, the lines of the MultiLineString, put
  end to end, are the record's points; the lengths of the lines add up to the number of
  points.
\<close>

theorem multiline_partition:
  assumes "shapeType s = 3" and "length (parts s) \<noteq> 1"
    and "sorted_wrt (<) (parts s)"
    and "parts s \<noteq> []" and "parts s ! 0 = 0"
    and "\<forall>p \<in> set (parts s). 0 \<le> p \<and> p < int (length (points s))"
  shows "\<exists>lines.
      build_geometry s =
        Inr (Some [(''type'', PyStr ''MultiLineString''),
                   (''coordinates'', PyList (map PyList lines))])
    \<and> length lines = length (parts s)
    \<and> concat lines = points s
    \<and> sum_list (map length lines) = length (points s)"
proof -
  let ?lines = "map (\<lambda>i. py_slice (points s) (parts s ! i)
                   (if i + 1 < length (parts s) then parts s ! (i + 1)
                    else int (length (points s)))) [0 ..< length (parts s)]"
  have g: "build_geometry s =
        Inr (Some [(''type'', PyStr ''MultiLineString''),
                   (''coordinates'', PyList (map PyList ?lines))])"
    using assms(1,2) by (simp add: build_geometry_def split_parts_map comp_def)
  have c: "concat ?lines = points s"
    using concat_slices [OF assms(3-6), of "length (parts s)"] by simp
  then have "length (concat ?lines) = length (points s)" by simp
  then have l: "sum_list (map length ?lines) = length (points s)"
    by (simp only: length_concat)
  have n: "length ?lines = length (parts s)" by simp
  from g n c l show ?thesis by blast
qed

theorem multiline_partition_witness:
  "shapeType \<lparr>shapeType = 3, points = map PyInt [10, 11, 12, 13, 14], parts = [0, 3]\<rparr> = 3
   \<and> sorted_wrt (<) [0, 3 :: int]
   \<and> (\<exists>lines.
        build_geometry (\<lparr>shapeType = 3, points = map PyInt [10, 11, 12, 13, 14], parts = [0, 3]\<rparr>
                          :: real shape)
          = Inr (Some [(''type'', PyStr ''MultiLineString''),
                       (''coordinates'', PyList (map PyList lines))])
      \<and> length lines = 2
      \<and> concat lines = map PyInt [10, 11, 12, 13, 14]
      \<and> sum_list (map length lines) = 5)"
  using multiline_partition
    [of "\<lparr>shapeType = 3, points = map PyInt [10, 11, 12, 13, 14], parts = [0, 3]\<rparr> :: real shape"]
  by (simp add: eval_nat_numeral)

section \<open>The loop over the records\<close>

lemma build_geometry_truthy:
  "build_geometry s = Inr geometry \<Longrightarrow> truthy geometry = (shapeType s \<in> {1, 3, 5})"
  by (auto simp: build_geometry_def truthy_def split: if_splits list.splits)

lemma build_geometry_unsupported:
  "shapeType s \<notin> {1, 3, 5} \<Longrightarrow> build_geometry s = Inr None"
  by (simp add: build_geometry_def)

lemma build_geometry_tagged:
  "build_geometry s = Inr (Some g) \<Longrightarrow>
   \<exists>tag coordinates. g = [(''type'', PyStr tag), (''coordinates'', coordinates)]
     \<and> tag \<in> {''Point'', ''LineString'', ''MultiLineString'', ''Polygon''}"
  by (auto simp: build_geometry_def split: if_splits list.splits)

lemma build_geometry_defined:
  "(\<exists>geometry. build_geometry s = Inr geometry) = (shapeType s = 1 \<longrightarrow> points s \<noteq> [])"
  by (auto simp: build_geometry_def split: list.splits)

lemma convert_loop_append:
  "convert_loop field_names (xs @ ys) features =
     (case convert_loop field_names xs features of
        Inl e \<Rightarrow> Inl e
      | Inr features' \<Rightarrow> convert_loop field_names ys features')"
  by (induction xs arbitrary: features) (auto split: sum.splits)

lemma convert_loop_skip:
  assumes "shapeType (sr_shape r) \<notin> {1, 3, 5}" and "length field_names \<le> length (sr_record r)"
  shows "convert_loop field_names (r # rest) features = convert_loop field_names rest features"
proof -
  from extract_defined [OF assms(2)] obtain properties
    where "extract_attributes field_names (sr_record r) = Inr properties" by blast
  with build_geometry_unsupported [OF assms(1)] show ?thesis
    by (simp add: truthy_def)
qed

lemma convert_loop_features:
  "convert_loop field_names recs features = Inr out \<Longrightarrow>
   \<exists>new. out = features @ new
     \<and> list_all2 (\<lambda>r f. \<exists>geometry properties.
            build_geometry (sr_shape r) = Inr (Some geometry)
          \<and> extract_attributes field_names (sr_record r) = Inr properties
          \<and> f = PyDict [(''type'', PyStr ''Feature''), (''geometry'', PyDict geometry),
                        (''properties'', PyDict properties)])
         [r \<leftarrow> recs. shapeType (sr_shape r) \<in> {1, 3, 5}] new"
proof (induction recs arbitrary: features)
  case Nil
  then show ?case by simp
next
  case (Cons r recs)
  from Cons.prems obtain properties geometry
    where p: "extract_attributes field_names (sr_record r) = Inr properties"
      and g: "build_geometry (sr_shape r) = Inr geometry"
    by (auto split: sum.splits)
  show ?case
  proof (cases "shapeType (sr_shape r) \<in> {1, 3, 5}")
    case True
    with build_geometry_truthy [OF g] have t: "truthy geometry" by simp
    then obtain d where d: "geometry = Some d" by (cases geometry) (auto simp: truthy_def)
    let ?f = "PyDict [(''type'', PyStr ''Feature''), (''geometry'', PyDict d),
                      (''properties'', PyDict properties)]"
    from Cons.prems p g t d have "convert_loop field_names recs (features @ [?f]) = Inr out"
      by (simp add: geometry_value_def)
    from Cons.IH [OF this] obtain new where
      "out = (features @ [?f]) @ new"
      "list_all2 (\<lambda>r f. \<exists>geometry properties.
            build_geometry (sr_shape r) = Inr (Some geometry)
          \<and> extract_attributes field_names (sr_record r) = Inr properties
          \<and> f = PyDict [(''type'', PyStr ''Feature''), (''geometry'', PyDict geometry),
                        (''properties'', PyDict properties)])
         [r \<leftarrow> recs. shapeType (sr_shape r) \<in> {1, 3, 5}] new"
      by blast
    with True p g d show ?thesis
      by (intro exI [of _ "?f # new"]) simp
  next
    case False
    with build_geometry_truthy [OF g] have "\<not> truthy geometry" by simp
    with Cons.prems p g have "convert_loop field_names recs features = Inr out" by simp
    from Cons.IH [OF this] False show ?thesis by simp
  qed
qed

lemma convert_loop_defined:
  "(\<exists>out. convert_loop field_names recs features = Inr out) =
   (\<forall>r \<in> set recs. length field_names \<le> length (sr_record r)
        \<and> (shapeType (sr_shape r) = 1 \<longrightarrow> points (sr_shape r) \<noteq> []))"
proof (induction recs arbitrary: features)
  case Nil
  show ?case by simp
next
  case (Cons r recs)
  show ?case
  proof (cases "length field_names \<le> length (sr_record r)
        \<and> (shapeType (sr_shape r) = 1 \<longrightarrow> points (sr_shape r) \<noteq> [])")
    case True
    then obtain properties geometry
      where p: "extract_attributes field_names (sr_record r) = Inr properties"
        and g: "build_geometry (sr_shape r) = Inr geometry"
      using extract_defined [of field_names "sr_record r"] build_geometry_defined [of "sr_shape r"]
      by blast
    with True Cons.IH show ?thesis by simp
  next
    case False
    then have "extract_attributes field_names (sr_record r) = Inl IndexError
        \<or> build_geometry (sr_shape r) = Inl IndexError"
      using extract_loop_short [of 0 "sr_record r" field_names "[]"]
      by (auto simp: extract_attributes_def build_geometry_def)
    then have "convert_loop field_names (r # recs) features = Inl IndexError"
      by (auto split: sum.splits dest: extract_error)
    with False show ?thesis by auto
  qed
qed

lemma list_all2_set2: "list_all2 P xs ys \<Longrightarrow> y \<in> set ys \<Longrightarrow> \<exists>x \<in> set xs. P x y"
  by (induction rule: list_all2_induct) auto

text \<open>
  C4, as the code has it: for a record whose shape type is none of 1, 3 and 5, the
  geometry is \<^verbatim>\<open>None\<close> and not an exception. When the record's row has a value for
  every field name, so that its attributes are extracted, which comes before the shape
  type is looked at, the record adds no feature, raises nothing and the run goes on
  with the records after it: the run with the record, from the loop to the written
  document, is the run without it.
\<close>

theorem unsupported_skipped:
  assumes "shapeType (sr_shape r) \<notin> {1, 3, 5}"
  shows "build_geometry (sr_shape r) = Inr None
    \<and> (length field_names \<le> length (sr_record r) \<longrightarrow>
         convert_loop field_names (before @ r # after) features =
         convert_loop field_names (before @ after) features)
    \<and> (length (sf_fields sf) - 1 \<le> length (sr_record r) \<longrightarrow>
         shp_to_geojson shp_exists (sf\<lparr>shapeRecords := before @ r # after\<rparr>) =
         shp_to_geojson shp_exists (sf\<lparr>shapeRecords := before @ after\<rparr>))"
proof -
  have skip: "convert_loop fns (before @ r # after) fs = convert_loop fns (before @ after) fs"
    if "length fns \<le> length (sr_record r)" for fns fs
    using convert_loop_skip [OF assms that]
    by (simp add: convert_loop_append split: sum.splits)
  have "shp_to_geojson shp_exists (sf\<lparr>shapeRecords := before @ r # after\<rparr>) =
        shp_to_geojson shp_exists (sf\<lparr>shapeRecords := before @ after\<rparr>)"
    if "length (sf_fields sf) - 1 \<le> length (sr_record r)"
    using skip [of "map fst (drop 1 (sf_fields sf))" "[]"] that
    by (simp add: shp_to_geojson_def)
  with skip build_geometry_unsupported [OF assms] show ?thesis by blast
qed

theorem unsupported_skipped_witness:
  "shapeType (sr_shape \<lparr>sr_shape = \<lparr>shapeType = 8, points = [PyInt 1, PyInt 2], parts = []\<rparr>,
                        sr_record = [PyStr ''m'']\<rparr>) \<notin> {1, 3, 5}
   \<and> shp_to_geojson True
       \<lparr>sf_fields = [(''DeletionFlag'', ''C'', 1, 0), (''name'', ''C'', 8, 0)],
        shapeRecords =
          [\<lparr>sr_shape = \<lparr>shapeType = 1, points = [PyList [PyInt 3, PyInt 4]], parts = []\<rparr>,
            sr_record = [PyStr ''p'']\<rparr>,
           \<lparr>sr_shape = \<lparr>shapeType = 8, points = [PyInt 1, PyInt 2], parts = []\<rparr>,
            sr_record = [PyStr ''m'']\<rparr>,
           \<lparr>sr_shape = \<lparr>shapeType = 3, points = [PyInt 5, PyInt 6], parts = [0]\<rparr>,
            sr_record = [PyStr ''q'' :: real pyval]\<rparr>]\<rparr>
     = Inr (Some \<lparr>obj = geojson
         [PyDict [(''type'', PyStr ''Feature''),
                  (''geometry'', PyDict [(''type'', PyStr ''Point''),
                                         (''coordinates'', PyList [PyInt 3, PyInt 4])]),
                  (''properties'', PyDict [(''name'', PyStr ''p'')])],
          PyDict [(''type'', PyStr ''Feature''),
                  (''geometry'', PyDict [(''type'', PyStr ''LineString''),
                                         (''coordinates'', PyList [PyInt 5, PyInt 6])]),
                  (''properties'', PyDict [(''name'', PyStr ''q'')])]],
        indent = 2\<rparr>)"
  using unsupported_skipped
    [of "\<lparr>sr_shape = \<lparr>shapeType = 8, points = [PyInt 1, PyInt 2], parts = []\<rparr>,
          sr_record = [PyStr ''m'' :: real pyval]\<rparr>"
        "[''name'']"
        "[\<lparr>sr_shape = \<lparr>shapeType = 1, points = [PyList [PyInt 3, PyInt 4]], parts = []\<rparr>,
           sr_record = [PyStr ''p'']\<rparr>]"
        "[\<lparr>sr_shape = \<lparr>shapeType = 3, points = [PyInt 5, PyInt 6], parts = [0]\<rparr>,
           sr_record = [PyStr ''q'']\<rparr>]"
        "[]"
        "\<lparr>sf_fields = [(''DeletionFlag'', ''C'', 1, 0), (''name'', ''C'', 8, 0)], shapeRecords = []\<rparr>"
        True]
  by (simp add: shp_to_geojson_def extract_attributes_def build_geometry_def truthy_def
      geometry_value_def)

text \<open>
  The statement of C4 that no such record ever raises does not hold: a record of shape
  type 8 whose row has one value for two field names ends the run with
  \<^verbatim>\<open>IndexError\<close>, raised by the extraction of its attributes, where the run without
  the record succeeds.
\<close>

theorem unsupported_short_row:
  "shapeType (sr_shape \<lparr>sr_shape = \<lparr>shapeType = 8, points = [PyInt 1, PyInt 2], parts = []\<rparr>,
                        sr_record = [PyStr ''only'']\<rparr>) \<notin> {1, 3, 5}
   \<and> convert_loop [''a'', ''b'']
       [\<lparr>sr_shape = \<lparr>shapeType = 8, points = [PyInt 1, PyInt 2], parts = []\<rparr>,
         sr_record = [PyStr ''only'']\<rparr> :: real shape_rec] []
     = Inl IndexError
   \<and> convert_loop [''a'', ''b''] ([] :: real shape_rec list) [] = Inr []
   \<and> shp_to_geojson True
       \<lparr>sf_fields = [(''DeletionFlag'', ''C'', 1, 0), (''a'', ''C'', 8, 0), (''b'', ''C'', 8, 0)],
        shapeRecords =
          [\<lparr>sr_shape = \<lparr>shapeType = 8, points = [PyInt 1, PyInt 2], parts = []\<rparr>,
            sr_record = [PyStr ''only'' :: real pyval]\<rparr>]\<rparr>
     = Inl IndexError"
  by (simp add: shp_to_geojson_def extract_attributes_def)

text \<open>
  C7: a run that writes a document passes \<^verbatim>\<open>indent=2\<close> to the serialiser, and the
  document has the keys \<open>type\<close>, \<open>crs\<close> and \<open>features\<close> in this order: the type is
  FeatureCollection, the crs names EPSG:4326, the only identifier the code has, and
  every feature has the type Feature, a geometry with one of the four tags and its
  coordinates, and a properties dict.
\<close>

theorem document_structure:
  assumes "shp_to_geojson shp_exists sf = Inr (Some (w :: 'f json_dump))"
  shows "indent w = 2
    \<and> (\<exists>features.
          obj w = PyDict [(''type'', PyStr ''FeatureCollection''),
                          (''crs'', PyDict [(''type'', PyStr ''name''),
                                            (''properties'', PyDict [(''name'', PyStr ''EPSG:4326'')])]),
                          (''features'', PyList features)]
        \<and> (\<forall>f \<in> set features. \<exists>tag coordinates properties.
              f = PyDict [(''type'', PyStr ''Feature''),
                          (''geometry'', PyDict [(''type'', PyStr tag), (''coordinates'', coordinates)]),
                          (''properties'', PyDict properties)]
            \<and> tag \<in> {''Point'', ''LineString'', ''MultiLineString'', ''Polygon''}))"
proof -
  from assms obtain features
    where run: "convert_loop (map fst (drop 1 (sf_fields sf))) (shapeRecords sf) [] = Inr features"
      and w: "w = \<lparr>obj = geojson features, indent = 2\<rparr>"
    by (auto simp: shp_to_geojson_def Let_def split: if_splits sum.splits)
  from convert_loop_features [OF run]
  have all: "list_all2 (\<lambda>r f. \<exists>geometry properties.
            build_geometry (sr_shape r) = Inr (Some geometry)
          \<and> extract_attributes (map fst (drop 1 (sf_fields sf))) (sr_record r) = Inr properties
          \<and> f = PyDict [(''type'', PyStr ''Feature''), (''geometry'', PyDict geometry),
                        (''properties'', PyDict properties)])
         [r \<leftarrow> shapeRecords sf. shapeType (sr_shape r) \<in> {1, 3, 5}] features"
    by simp
  have "\<exists>tag coordinates properties.
              f = PyDict [(''type'', PyStr ''Feature''),
                          (''geometry'', PyDict [(''type'', PyStr tag), (''coordinates'', coordinates)]),
                          (''properties'', PyDict properties)]
            \<and> tag \<in> {''Point'', ''LineString'', ''MultiLineString'', ''Polygon''}"
    if "f \<in> set features" for f
  proof -
    from list_all2_set2 [OF all that] obtain geometry properties and r :: "'f shape_rec"
      where g: "build_geometry (sr_shape r) = Inr (Some geometry)"
        and f: "f = PyDict [(''type'', PyStr ''Feature''), (''geometry'', PyDict geometry),
                        (''properties'', PyDict properties)]"
      by auto
    from build_geometry_tagged [OF g] f show ?thesis by auto
  qed
  with w show ?thesis by (simp add: geojson_def)
qed

theorem document_structure_witness:
  "shp_to_geojson True
       \<lparr>sf_fields = [(''DeletionFlag'', ''C'', 1, 0), (''name'', ''C'', 8, 0)],
        shapeRecords =
          [\<lparr>sr_shape = \<lparr>shapeType = 1, points = [PyList [PyInt 3, PyInt 4]], parts = []\<rparr>,
            sr_record = [PyStr ''p'' :: real pyval]\<rparr>]\<rparr>
     = Inr (Some \<lparr>obj = PyDict
         [(''type'', PyStr ''FeatureCollection''),
          (''crs'', PyDict [(''type'', PyStr ''name''),
                            (''properties'', PyDict [(''name'', PyStr ''EPSG:4326'')])]),
          (''features'', PyList
             [PyDict [(''type'', PyStr ''Feature''),
                      (''geometry'', PyDict [(''type'', PyStr ''Point''),
                                             (''coordinates'', PyList [PyInt 3, PyInt 4])]),
                      (''properties'', PyDict [(''name'', PyStr ''p'')])]])],
        indent = 2\<rparr>)
   \<and> indent \<lparr>obj = PyNone :: real pyval, indent = 2\<rparr> = 2"
proof -
  let ?sf = "\<lparr>sf_fields = [(''DeletionFlag'', ''C'', 1, 0), (''name'', ''C'', 8, 0)],
        shapeRecords =
          [\<lparr>sr_shape = \<lparr>shapeType = 1, points = [PyList [PyInt 3, PyInt 4]], parts = []\<rparr>,
            sr_record = [PyStr ''p'' :: real pyval]\<rparr>]\<rparr>"
  let ?f = "PyDict [(''type'', PyStr ''Feature''),
                      (''geometry'', PyDict [(''type'', PyStr ''Point''),
                                             (''coordinates'', PyList [PyInt 3, PyInt 4])]),
                      (''properties'', PyDict [(''name'', PyStr ''p'' :: real pyval)])]"
  have run: "shp_to_geojson True ?sf = Inr (Some \<lparr>obj = geojson [?f], indent = 2\<rparr>)"
    by (simp add: shp_to_geojson_def extract_attributes_def build_geometry_def truthy_def
        geometry_value_def)
  from document_structure [OF run] run show ?thesis
    by (simp add: geojson_def)
qed

text \<open>
  C8: a run writes a document exactly when the shapefile exists, every row has a value
  for every field name and every Point record has a point. The features of the
  document are then the features of the records of shape type 1, 3 or 5, one for each
  and in the order of the records: the geometry and the properties of the record under
  the type Feature. The conversion is a function of the reader's data, so the same
  records and field names give the same document.
\<close>

theorem features_in_record_order:
  "((\<exists>w. shp_to_geojson shp_exists sf = Inr (Some w)) =
      (shp_exists \<and> (\<forall>r \<in> set (shapeRecords sf).
          length (sf_fields sf) - 1 \<le> length (sr_record r)
        \<and> (shapeType (sr_shape r) = 1 \<longrightarrow> points (sr_shape r) \<noteq> []))))
   \<and> (\<forall>w. shp_to_geojson shp_exists sf = Inr (Some w) \<longrightarrow>
        (\<exists>items features.
            obj w = PyDict items \<and> dict_get items ''features'' = Some (PyList features)
          \<and> list_all2 (\<lambda>r f. \<exists>geometry properties.
                 build_geometry (sr_shape r) = Inr (Some geometry)
               \<and> extract_attributes (map fst (drop 1 (sf_fields sf))) (sr_record r) = Inr properties
               \<and> f = PyDict [(''type'', PyStr ''Feature''), (''geometry'', PyDict geometry),
                             (''properties'', PyDict properties)])
              [r \<leftarrow> shapeRecords sf. shapeType (sr_shape r) \<in> {1, 3, 5}] features))
   \<and> (\<forall>w w'. shp_to_geojson shp_exists sf = Inr (Some w)
              \<and> shp_to_geojson shp_exists sf = Inr (Some w') \<longrightarrow> w = w')"
proof (intro conjI allI impI)
  let ?fns = "map fst (drop 1 (sf_fields sf))"
  have "(\<exists>w. shp_to_geojson shp_exists sf = Inr (Some w)) =
        (shp_exists \<and> (\<exists>out. convert_loop ?fns (shapeRecords sf) [] = Inr out))"
    by (auto simp: shp_to_geojson_def Let_def split: sum.splits)
  then show "(\<exists>w. shp_to_geojson shp_exists sf = Inr (Some w)) =
      (shp_exists \<and> (\<forall>r \<in> set (shapeRecords sf).
          length (sf_fields sf) - 1 \<le> length (sr_record r)
        \<and> (shapeType (sr_shape r) = 1 \<longrightarrow> points (sr_shape r) \<noteq> [])))"
    by (simp add: convert_loop_defined)
next
  fix w
  assume "shp_to_geojson shp_exists sf = Inr (Some w)"
  then obtain features
    where run: "convert_loop (map fst (drop 1 (sf_fields sf))) (shapeRecords sf) [] = Inr features"
      and w: "w = \<lparr>obj = geojson features, indent = 2\<rparr>"
    by (auto simp: shp_to_geojson_def Let_def split: if_splits sum.splits)
  from convert_loop_features [OF run] w
  show "\<exists>items features.
            obj w = PyDict items \<and> dict_get items ''features'' = Some (PyList features)
          \<and> list_all2 (\<lambda>r f. \<exists>geometry properties.
                 build_geometry (sr_shape r) = Inr (Some geometry)
               \<and> extract_attributes (map fst (drop 1 (sf_fields sf))) (sr_record r) = Inr properties
               \<and> f = PyDict [(''type'', PyStr ''Feature''), (''geometry'', PyDict geometry),
                             (''properties'', PyDict properties)])
              [r \<leftarrow> shapeRecords sf. shapeType (sr_shape r) \<in> {1, 3, 5}] features"
    by (simp add: geojson_def)
next
  fix w w'
  assume "shp_to_geojson shp_exists sf = Inr (Some w)
              \<and> shp_to_geojson shp_exists sf = Inr (Some w')"
  then have "Inr (Some w) = (Inr (Some w') :: error + 'a json_dump option)"
    by (elim conjE) (rule trans [OF sym])
  then show "w = w'" by (simp only: sum.inject option.inject)
qed

theorem features_in_record_order_witness:
  "shp_to_geojson True
       \<lparr>sf_fields = [(''DeletionFlag'', ''C'', 1, 0), (''id'', ''N'', 4, 0), (''name'', ''C'', 8, 0)],
        shapeRecords =
          [\<lparr>sr_shape = \<lparr>shapeType = 1, points = [PyList [PyInt 3, PyInt 4]], parts = []\<rparr>,
            sr_record = [PyInt 1, PyStr ''p'']\<rparr>,
           \<lparr>sr_shape = \<lparr>shapeType = 3, points = map PyInt [10, 11, 12, 13, 14], parts = [0, 3]\<rparr>,
            sr_record = [PyInt 2, PyStr ''q'']\<rparr>,
           \<lparr>sr_shape = \<lparr>shapeType = 8, points = [PyInt 5], parts = []\<rparr>,
            sr_record = [PyInt 3, PyStr ''m'' :: real pyval]\<rparr>]\<rparr>
     = Inr (Some \<lparr>obj = geojson
         [PyDict [(''type'', PyStr ''Feature''),
                  (''geometry'', PyDict [(''type'', PyStr ''Point''),
                                         (''coordinates'', PyList [PyInt 3, PyInt 4])]),
                  (''properties'', PyDict [(''id'', PyInt 1), (''name'', PyStr ''p'')])],
          PyDict [(''type'', PyStr ''Feature''),
                  (''geometry'',
                   PyDict [(''type'', PyStr ''MultiLineString''),
                           (''coordinates'', PyList [PyList [PyInt 10, PyInt 11, PyInt 12],
                                                     PyList [PyInt 13, PyInt 14]])]),
                  (''properties'', PyDict [(''id'', PyInt 2), (''name'', PyStr ''q'')])]],
        indent = 2\<rparr>)"
proof -
  let ?sf = "\<lparr>sf_fields = [(''DeletionFlag'', ''C'', 1, 0), (''id'', ''N'', 4, 0), (''name'', ''C'', 8, 0)],
        shapeRecords =
          [\<lparr>sr_shape = \<lparr>shapeType = 1, points = [PyList [PyInt 3, PyInt 4]], parts = []\<rparr>,
            sr_record = [PyInt 1, PyStr ''p'']\<rparr>,
           \<lparr>sr_shape = \<lparr>shapeType = 3, points = map PyInt [10, 11, 12, 13, 14], parts = [0, 3]\<rparr>,
            sr_record = [PyInt 2, PyStr ''q'']\<rparr>,
           \<lparr>sr_shape = \<lparr>shapeType = 8, points = [PyInt 5], parts = []\<rparr>,
            sr_record = [PyInt 3, PyStr ''m'' :: real pyval]\<rparr>]\<rparr>"
  have "\<forall>r \<in> set (shapeRecords ?sf).
          length (sf_fields ?sf) - 1 \<le> length (sr_record r)
        \<and> (shapeType (sr_shape r) = 1 \<longrightarrow> points (sr_shape r) \<noteq> [])"
    by simp
  with features_in_record_order [of True ?sf]
  obtain w where w: "shp_to_geojson True ?sf = Inr (Some w)"
    by blast
  then show ?thesis
    by (simp add: shp_to_geojson_def extract_attributes_def build_geometry_def truthy_def
        geometry_value_def split_parts_def py_slice_def upt_rec)
qed

end
